theory Spec2Isabelle
  imports Complex_Main
begin

section \<open>Calendar dates\<close>

text \<open>
  The program handles \<^verbatim>\<open>datetime.date\<close> values. A date is a record of its three
  fields. Years are not bounded here (the bounds of \<^verbatim>\<open>datetime.date\<close> and of
  \<^verbatim>\<open>pandas.Timestamp\<close> play no part in what follows).
\<close>

record date =
  year :: int
  month :: int
  day :: int

definition mk_date :: "int \<Rightarrow> int \<Rightarrow> int \<Rightarrow> date" where
  "mk_date y m d = \<lparr>year = y, month = m, day = d\<rparr>"

definition is_leap :: "int \<Rightarrow> bool" where
  "is_leap y = (y mod 4 = 0 \<and> (y mod 100 \<noteq> 0 \<or> y mod 400 = 0))"

definition days_in_month :: "int \<Rightarrow> int \<Rightarrow> int" where
  "days_in_month y m =
     (if m = 2 then (if is_leap y then 29 else 28)
      else if m = 4 \<or> m = 6 \<or> m = 9 \<or> m = 11 then 30
      else 31)"

text \<open>A calendar month-end: the last day of its month.\<close>

definition is_month_end :: "date \<Rightarrow> bool" where
  "is_month_end d = (day d = days_in_month (year d) (month d))"

text \<open>
  \<^verbatim>\<open>date.toordinal()\<close> and \<^verbatim>\<open>date.weekday()\<close> of the standard library: day 1 is
  1 January of year 1, Monday is weekday 0.
\<close>

definition days_before_year :: "int \<Rightarrow> int" where
  "days_before_year y =
     (let z = y - 1 in z * 365 + z div 4 - z div 100 + z div 400)"

definition days_before_month :: "int \<Rightarrow> int \<Rightarrow> int" where
  "days_before_month y m =
     (\<Sum>k \<leftarrow> [1 ..< nat m]. days_in_month y (int k))"

definition toordinal :: "date \<Rightarrow> int" where
  "toordinal d = days_before_year (year d) + days_before_month (year d) (month d) + day d"

definition weekday :: "date \<Rightarrow> int" where
  "weekday d = (toordinal d + 6) mod 7"

definition next_day :: "date \<Rightarrow> date" where
  "next_day d =
     (if day d < days_in_month (year d) (month d) then d\<lparr>day := day d + 1\<rparr>
      else if month d < 12 then d\<lparr>month := month d + 1, day := 1\<rparr>
      else \<lparr>year = year d + 1, month = 1, day = 1\<rparr>)"

section \<open>The pandas date offsets the program uses\<close>

text \<open>
  \<^verbatim>\<open>shift_month(stamp, months, day_opt)\<close> with \<^verbatim>\<open>day_opt = "start"\<close>, the day
  option of both \<^verbatim>\<open>MonthBegin\<close> and \<^verbatim>\<open>QuarterBegin\<close>: the month moves by
  \<^verbatim>\<open>months\<close> and the day becomes 1. Division and remainder round towards minus
  infinity, as in Python.
\<close>

definition shift_month_start :: "date \<Rightarrow> int \<Rightarrow> date" where
  "shift_month_start stamp months =
     (let dy = (month stamp + months) div 12;
          m = (month stamp + months) mod 12
      in if m = 0 then \<lparr>year = year stamp + (dy - 1), month = 12, day = 1\<rparr>
         else \<lparr>year = year stamp + dy, month = m, day = 1\<rparr>)"

text \<open>
  \<^verbatim>\<open>roll_convention(other.day, n, compare_day)\<close>, used by the month offsets.
\<close>

definition roll_convention :: "int \<Rightarrow> int \<Rightarrow> int \<Rightarrow> int" where
  "roll_convention other n compare =
     (if n > 0 \<and> other < compare then n - 1
      else if n \<le> 0 \<and> other > compare then n + 1
      else n)"

text \<open>
  \<^verbatim>\<open>MonthBegin(n)\<close> applied to a date; the day to compare with is 1.
\<close>

definition month_begin_apply :: "int \<Rightarrow> date \<Rightarrow> date" where
  "month_begin_apply n other = shift_month_start other (roll_convention (day other) n 1)"

text \<open>
  \<^verbatim>\<open>roll_qtrday(other, n, month, day_opt="start", modby=3)\<close>, used by the
  quarter offsets.
\<close>

definition roll_qtrday :: "date \<Rightarrow> int \<Rightarrow> int \<Rightarrow> int" where
  "roll_qtrday other n startingMonth =
     (let months_since = month other mod 3 - startingMonth mod 3
      in if n > 0
         then (if months_since < 0 \<or> (months_since = 0 \<and> day other < 1) then n - 1 else n)
         else (if months_since > 0 \<or> (months_since = 0 \<and> day other > 1) then n + 1 else n))"

text \<open>
  \<^verbatim>\<open>QuarterBegin(n, startingMonth)\<close> applied to a date.
\<close>

definition quarter_begin_apply :: "int \<Rightarrow> int \<Rightarrow> date \<Rightarrow> date" where
  "quarter_begin_apply n startingMonth other =
     (let months_since = month other mod 3 - startingMonth mod 3;
          qtrs = roll_qtrday other n startingMonth;
          months = qtrs * 3 - months_since
      in shift_month_start other months)"

text \<open>
  Subtracting an offset from a date applies the negated offset:
  \<^verbatim>\<open>d - MonthBegin()\<close> is \<^verbatim>\<open>MonthBegin(-1)\<close> applied to \<^verbatim>\<open>d\<close>.
\<close>

definition minus_MonthBegin :: "date \<Rightarrow> date" where
  "minus_MonthBegin d = month_begin_apply (- 1) d"

definition minus_QuarterBegin :: "int \<Rightarrow> date \<Rightarrow> date" where
  "minus_QuarterBegin startingMonth d = quarter_begin_apply (- 1) startingMonth d"

text \<open>
  Line 89 of \<^verbatim>\<open>backsolve_flows\<close>:
  \<^verbatim>\<open>month_start = (month_end - pd.offsets.QuarterBegin(startingMonth=1)).date()\<close>.
\<close>

definition month_start_of :: "date \<Rightarrow> date" where
  "month_start_of month_end = minus_QuarterBegin 1 month_end"

text \<open>
  The date the specification asks for: the calendar month-end three months before a
  date (31 December for 31 March).
\<close>

definition month_end_three_months_prior :: "date \<Rightarrow> date" where
  "month_end_three_months_prior d =
     (let dy = (month d - 3) div 12;
          m0 = (month d - 3) mod 12;
          y = (if m0 = 0 then year d + dy - 1 else year d + dy);
          m = (if m0 = 0 then 12 else m0)
      in \<lparr>year = y, month = m, day = days_in_month y m\<rparr>)"

section \<open>Exceptions and the error channel\<close>

text \<open>
  The exceptions the program can meet, each with its message (\<^verbatim>\<open>str(e)\<close>):
  a failed download or text extraction, a \<^verbatim>\<open>ValueError\<close>, and the
  \<^verbatim>\<open>IndexError\<close> of \<^verbatim>\<open>.iloc[0]\<close> on an empty selection.
\<close>

datatype error = RequestError string | ValueError string | IndexError string

fun message :: "error \<Rightarrow> string" where
  "message (RequestError s) = s"
| "message (ValueError s) = s"
| "message (IndexError s) = s"

text \<open>
  The lines printed to \<^verbatim>\<open>sys.stderr\<close>:
  \<^verbatim>\<open>Warning: {code} factsheet not yet updated for {as_of}\<close> and \<^verbatim>\<open>{code}: {e}\<close>.
\<close>

datatype log_line = StaleWarning string date | FundFailure string string

section \<open>The factsheet fetch\<close>

definition FACTSHEET_PDF :: "string \<Rightarrow> string" where
  "FACTSHEET_PDF code = ''https://fundfactsheets.sjp.co.uk/Latest/'' @ code @ ''_Factsheet.pdf''"

text \<open>
  What \<^verbatim>\<open>get_month_end_size\<close> calls outside the program: \<^verbatim>\<open>fetch_text url\<close> is the
  download of \<^verbatim>\<open>url\<close> followed by the extraction of the text of the PDF (an exception
  of either step is the \<^verbatim>\<open>Inl\<close> result), and \<^verbatim>\<open>search_fund_size text\<close> is
  \<^verbatim>\<open>re.search(r"Fund size\s*\<pounds>\s*([\d.,]+)\s*([mb]n)", text, flags=re.I)\<close>,
  giving the two groups of the first match.
\<close>

record env =
  fetch_text :: "string \<Rightarrow> error + string"
  search_fund_size :: "string \<Rightarrow> (string \<times> string) option"

text \<open>Decimal numerals, for \<^verbatim>\<open>strftime\<close> and \<^verbatim>\<open>float\<close>.\<close>

definition digit_char :: "nat \<Rightarrow> char" where
  "digit_char n = char_of (48 + n)"

fun show_nat :: "nat \<Rightarrow> string" where
  "show_nat n = (if n < 10 then [digit_char n] else show_nat (n div 10) @ [digit_char (n mod 10)])"

definition is_digit :: "char \<Rightarrow> bool" where
  "is_digit c = (c \<in> set ''0123456789'')"

definition digits_val :: "string \<Rightarrow> nat" where
  "digits_val s = foldl (\<lambda>acc c. 10 * acc + (of_char c - 48)) 0 s"

definition month_name :: "int \<Rightarrow> string" where
  "month_name m =
     [''January'', ''February'', ''March'', ''April'', ''May'', ''June'', ''July'',
      ''August'', ''September'', ''October'', ''November'', ''December''] ! nat (m - 1)"

text \<open>\<^verbatim>\<open>as_of.strftime("%d %B %Y")\<close>, for a valid date: \<^verbatim>\<open>31 March 2024\<close>.\<close>

definition strftime_d_B_Y :: "date \<Rightarrow> string" where
  "strftime_d_B_Y d =
     (if day d < 10 then ''0'' else []) @ show_nat (nat (day d)) @ '' ''
       @ month_name (month d) @ '' '' @ show_nat (nat (year d))"

text \<open>\<^verbatim>\<open>s in text\<close> on strings.\<close>

fun contains :: "string \<Rightarrow> string \<Rightarrow> bool" where
  "contains s [] = (s = [])"
| "contains s (c # cs) = (take (length s) (c # cs) = s \<or> contains s cs)"

text \<open>
  \<^verbatim>\<open>float(s)\<close> on what the pattern's first group leaves once the commas are removed:
  digits and dots. The result is the decimal the string writes (the rounding to the
  nearest double is not modelled); \<^verbatim>\<open>None\<close> is the \<^verbatim>\<open>ValueError\<close>.
\<close>

definition py_float :: "string \<Rightarrow> rat option" where
  "py_float s =
     (let ip = takeWhile is_digit s; rest = dropWhile is_digit s
      in case rest of
           [] \<Rightarrow> (if ip = [] then None else Some (of_nat (digits_val ip)))
         | c # fr \<Rightarrow>
             (if c = CHR ''.'' \<and> list_all is_digit fr \<and> \<not> (ip = [] \<and> fr = [])
              then Some (of_nat (digits_val ip) + of_nat (digits_val fr) / 10 ^ length fr)
              else None))"

definition startswith_b :: "string \<Rightarrow> bool" where
  "startswith_b unit = (case unit of [] \<Rightarrow> False | c # _ \<Rightarrow> c = CHR ''b'' \<or> c = CHR ''B'')"

text \<open>
  \<^verbatim>\<open>get_month_end_size(code, as_of)\<close>: the lines it prints, and the size in GBP millions
  or the exception it raises.
\<close>

definition get_month_end_size :: "env \<Rightarrow> string \<Rightarrow> date \<Rightarrow> log_line list \<times> (error + rat)" where
  "get_month_end_size e code as_of =
     (case fetch_text e (FACTSHEET_PDF code) of
        Inl err \<Rightarrow> ([], Inl err)
      | Inr text \<Rightarrow>
          (let warn = (if contains (strftime_d_B_Y as_of) text then []
                       else [StaleWarning code as_of])
           in case search_fund_size e text of
                None \<Rightarrow> (warn, Inl (ValueError (''Could not find Fund size for '' @ code)))
              | Some (num, unit) \<Rightarrow>
                  (let s = filter (\<lambda>c. c \<noteq> CHR '','') num
                   in case py_float s of
                        None \<Rightarrow>
                          (warn, Inl (ValueError
                             (''could not convert string to float: '' @ [CHR 0x27] @ s @ [CHR 0x27])))
                      | Some v \<Rightarrow> (warn, Inr (v * (if startswith_b unit then 1000 else 1))))))"

section \<open>The back-solver\<close>

text \<open>
  Floating-point values are modelled by the rational they stand for, with one more value
  for an infinity or a NaN: the prices come out of the data frame as
  \<^verbatim>\<open>numpy.float64\<close>, whose division by zero gives \<^verbatim>\<open>inf\<close> or \<^verbatim>\<open>nan\<close> and raises
  nothing. Rounding errors of the double arithmetic are not modelled.
\<close>

datatype fl = Finite rat | NonFinite

record price_row =
  p_date :: date
  p_code :: string
  price_pence :: rat

record flow_row =
  quarter_end :: date
  f_code :: string
  flow_gbp_m :: fl

text \<open>
  \<^verbatim>\<open>price_df.loc[(price_df["code"] == code) & (price_df["date"] == d)].iloc[0]["price_pence"]\<close>:
  the price of the first row with this code and date; \<^verbatim>\<open>None\<close> is the
  \<^verbatim>\<open>IndexError\<close> of an empty selection.
\<close>

fun lookup_price :: "price_row list \<Rightarrow> string \<Rightarrow> date \<Rightarrow> rat option" where
  "lookup_price [] code d = None"
| "lookup_price (r # rs) code d =
     (if p_code r = code \<and> p_date r = d then Some (price_pence r) else lookup_price rs code d)"

text \<open>Lines 110 to 112 and the rounding of line 118.\<close>

definition units_start :: "rat \<Rightarrow> rat \<Rightarrow> fl" where
  "units_start size_start p_start =
     (if p_start = 0 then NonFinite else Finite (size_start * 1000000 / p_start))"

definition aum_no_flow :: "fl \<Rightarrow> rat \<Rightarrow> fl" where
  "aum_no_flow us p_end = (case us of Finite u \<Rightarrow> Finite (u * p_end / 1000000) | NonFinite \<Rightarrow> NonFinite)"

definition flow :: "rat \<Rightarrow> fl \<Rightarrow> fl" where
  "flow size_end anf = (case anf of Finite a \<Rightarrow> Finite (size_end - a) | NonFinite \<Rightarrow> NonFinite)"

definition round_half_even :: "rat \<Rightarrow> int" where
  "round_half_even x =
     (let f = \<lfloor>x\<rfloor>; d = x - of_int f
      in if d < 1 / 2 then f else if 1 / 2 < d then f + 1 else if even f then f else f + 1)"

definition round2 :: "fl \<Rightarrow> fl" where
  "round2 v = (case v of Finite x \<Rightarrow> Finite (of_int (round_half_even (x * 100)) / 100) | NonFinite \<Rightarrow> NonFinite)"

text \<open>The flow before rounding, and the flow the record reports.\<close>

definition implied_flow :: "rat \<Rightarrow> rat \<Rightarrow> rat \<Rightarrow> rat \<Rightarrow> fl" where
  "implied_flow size_start size_end p_start p_end =
     flow size_end (aum_no_flow (units_start size_start p_start) p_end)"

definition reported_flow :: "rat \<Rightarrow> rat \<Rightarrow> rat \<Rightarrow> rat \<Rightarrow> fl" where
  "reported_flow size_start size_end p_start p_end =
     round2 (implied_flow size_start size_end p_start p_end)"

text \<open>
  The loop of \<^verbatim>\<open>backsolve_flows\<close>. Its first argument is the outcome of each call
  \<^verbatim>\<open>get_month_end_size(code, as_of)\<close> of the run: the lines the call prints and what it
  returns or raises. An exception of the fetch is caught: a line is printed and the loop
  goes on with the next fund. The price lookups are outside the \<^verbatim>\<open>try\<close>: their
  \<^verbatim>\<open>IndexError\<close> leaves the function.
\<close>

type_synonym size_source = "string \<Rightarrow> date \<Rightarrow> log_line list \<times> (error + rat)"

definition index_error :: error where
  "index_error = IndexError ''single positional indexer is out-of-bounds''"

fun backsolve_loop ::
  "size_source \<Rightarrow> price_row list \<Rightarrow> date \<Rightarrow> date \<Rightarrow> string list \<Rightarrow>
     flow_row list \<Rightarrow> log_line list \<Rightarrow> log_line list \<times> (error + flow_row list)" where
  "backsolve_loop src price_df month_start month_end [] flows printed = (printed, Inr flows)"
| "backsolve_loop src price_df month_start month_end (code # codes) flows printed =
     (case src code month_start of
        (w1, Inl e) \<Rightarrow>
          backsolve_loop src price_df month_start month_end codes flows
            (printed @ w1 @ [FundFailure code (message e)])
      | (w1, Inr size_start) \<Rightarrow>
          (case src code month_end of
             (w2, Inl e) \<Rightarrow>
               backsolve_loop src price_df month_start month_end codes flows
                 (printed @ w1 @ w2 @ [FundFailure code (message e)])
           | (w2, Inr size_end) \<Rightarrow>
               (case lookup_price price_df code month_start of
                  None \<Rightarrow> (printed @ w1 @ w2, Inl index_error)
                | Some p_start \<Rightarrow>
                    (case lookup_price price_df code month_end of
                       None \<Rightarrow> (printed @ w1 @ w2, Inl index_error)
                     | Some p_end \<Rightarrow>
                         backsolve_loop src price_df month_start month_end codes
                           (flows @ [\<lparr>quarter_end = month_end, f_code = code,
                                      flow_gbp_m = reported_flow size_start size_end p_start p_end\<rparr>])
                           (printed @ w1 @ w2)))))"

definition backsolve_flows ::
  "size_source \<Rightarrow> date \<Rightarrow> string list \<Rightarrow> price_row list \<Rightarrow>
     log_line list \<times> (error + flow_row list)" where
  "backsolve_flows src month_end codes price_df =
     backsolve_loop src price_df (month_start_of month_end) month_end codes [] []"

section \<open>The driver\<close>

text \<open>
  \<^verbatim>\<open>pd.concat([existing, new]).drop_duplicates(subset=...)\<close>: the rows in order, a row
  dropped when an earlier row has its key. The second argument is the set of keys met
  so far.
\<close>

fun drop_duplicates_from :: "('a \<Rightarrow> 'k) \<Rightarrow> 'k set \<Rightarrow> 'a list \<Rightarrow> 'a list" where
  "drop_duplicates_from key seen [] = []"
| "drop_duplicates_from key seen (r # rs) =
     (if key r \<in> seen then drop_duplicates_from key seen rs
      else r # drop_duplicates_from key (insert (key r) seen) rs)"

definition drop_duplicates :: "('a \<Rightarrow> 'k) \<Rightarrow> 'a list \<Rightarrow> 'a list" where
  "drop_duplicates key rs = drop_duplicates_from key {} rs"

definition price_key :: "price_row \<Rightarrow> date \<times> string" where
  "price_key r = (p_date r, p_code r)"

definition flow_key :: "flow_row \<Rightarrow> date \<times> string" where
  "flow_key r = (quarter_end r, f_code r)"

text \<open>
  The two files of the data directory; \<^verbatim>\<open>None\<close> is a file that does not exist.
  Writing a table and reading it back is taken to give the same rows, and dates are
  compared by value (that \<^verbatim>\<open>read_csv\<close> returns timestamps where the new rows carry
  \<^verbatim>\<open>datetime.date\<close> objects is not modelled).
\<close>

record files =
  price_file :: "price_row list option"
  flow_file :: "flow_row list option"

definition no_files :: files where
  "no_files = \<lparr>price_file = None, flow_file = None\<rparr>"

text \<open>
  Lines 134 to 141 and 156 to 163: the table written to the file. The rows are
  deduplicated only when the file exists.
\<close>

definition merge_prices :: "price_row list option \<Rightarrow> price_row list \<Rightarrow> price_row list" where
  "merge_prices file prices_df =
     (case file of
        None \<Rightarrow> prices_df
      | Some existing \<Rightarrow> drop_duplicates price_key (existing @ prices_df))"

definition merge_flows :: "flow_row list option \<Rightarrow> flow_row list \<Rightarrow> flow_row list" where
  "merge_flows file q_flows =
     (case file of
        None \<Rightarrow> q_flows
      | Some existing \<Rightarrow> drop_duplicates flow_key (existing @ q_flows))"

text \<open>
  \<^verbatim>\<open>pd.bdate_range(start, periods=n, freq="C")\<close> with the default week mask (Monday to
  Friday) and no holidays: the first \<^verbatim>\<open>n\<close> weekdays from \<^verbatim>\<open>start\<close> on.
\<close>

definition rollforward :: "date \<Rightarrow> date" where
  "rollforward d =
     (if weekday d = 5 then next_day (next_day d)
      else if weekday d = 6 then next_day d
      else d)"

fun bdate_range :: "date \<Rightarrow> nat \<Rightarrow> date list" where
  "bdate_range start 0 = []"
| "bdate_range start (Suc n) = (let b = rollforward start in b # bdate_range (next_day b) n)"

text \<open>Lines 144 to 150: the condition under which the flows are estimated.\<close>

definition is_flow_day :: "date \<Rightarrow> bool" where
  "is_flow_day today =
     (let first_biz = today\<lparr>day := 1\<rparr>;
          biz_day = bdate_range first_biz 20
      in today \<in> set (take 10 biz_day) \<and> month today \<in> set [1, 4, 7, 10])"

text \<open>Line 151: \<^verbatim>\<open>q_end = (today - pd.offsets.MonthBegin()).date()\<close>.\<close>

definition q_end_of :: "date \<Rightarrow> date" where
  "q_end_of today = minus_MonthBegin today"

text \<open>
  The date the comment of line 151 and the specification name: the last day of the month
  before \<^verbatim>\<open>today\<close>.
\<close>

definition last_day_of_prior_month :: "date \<Rightarrow> date" where
  "last_day_of_prior_month today =
     (let y = (if month today = 1 then year today - 1 else year today);
          m = (if month today = 1 then 12 else month today - 1)
      in \<lparr>year = y, month = m, day = days_in_month y m\<rparr>)"

text \<open>
  \<^verbatim>\<open>main\<close>, from the two price feeds (each the table \<^verbatim>\<open>get_daily_prices\<close> returns or
  the exception it raises), the fund codes of the two groups, today's date and the files:
  the files it leaves, the lines printed by the back-solver, and the exception that ends
  the run, if any.
\<close>

definition main ::
  "size_source \<Rightarrow> (error + price_row list) \<Rightarrow> (error + price_row list) \<Rightarrow>
     string list \<Rightarrow> string list \<Rightarrow> date \<Rightarrow> files \<Rightarrow> files \<times> log_line list \<times> error option" where
  "main src life pension life_codes pension_codes today fs =
     (case life of
        Inl e \<Rightarrow> (fs, [], Some e)
      | Inr prices_life \<Rightarrow>
          (case pension of
             Inl e \<Rightarrow> (fs, [], Some e)
           | Inr prices_pension \<Rightarrow>
               (let prices_df = merge_prices (price_file fs) (prices_life @ prices_pension);
                    fs1 = fs\<lparr>price_file := Some prices_df\<rparr>
                in if is_flow_day today
                   then (case backsolve_flows src (q_end_of today)
                                 (life_codes @ pension_codes) prices_df of
                           (printed, Inl e) \<Rightarrow> (fs1, printed, Some e)
                         | (printed, Inr q_flows) \<Rightarrow>
                             (fs1\<lparr>flow_file := Some (merge_flows (flow_file fs1) q_flows)\<rparr>,
                              printed, None))
                   else (fs1, [], None))))"

section \<open>Notions used to state the properties\<close>

text \<open>
  The exception that makes the loop skip a fund, if any: that of the fetch for the
  quarter start, else that of the fetch for the quarter end.
\<close>

definition fetch_failure :: "size_source \<Rightarrow> date \<Rightarrow> date \<Rightarrow> string \<Rightarrow> error option" where
  "fetch_failure src month_start month_end code =
     (case snd (src code month_start) of
        Inl e \<Rightarrow> Some e
      | Inr _ \<Rightarrow> (case snd (src code month_end) of Inl e \<Rightarrow> Some e | Inr _ \<Rightarrow> None))"

text \<open>Both exact-date price lookups of a fund find a row.\<close>

definition prices_found :: "price_row list \<Rightarrow> date \<Rightarrow> date \<Rightarrow> string \<Rightarrow> bool" where
  "prices_found price_df month_start month_end code =
     (lookup_price price_df code month_start \<noteq> None
      \<and> lookup_price price_df code month_end \<noteq> None)"



text \<open>
  Inputs for the examples: a source of fund sizes that answers every fund with one size
  for the quarter start and one for the quarter end, printing nothing; the same source
  with one fund whose download fails; a price table with one row per fund at each of
  two dates.
\<close>

definition sizes_source :: "date \<Rightarrow> rat \<Rightarrow> rat \<Rightarrow> size_source" where
  "sizes_source month_start size_start size_end =
     (\<lambda>code as_of. ([], Inr (if as_of = month_start then size_start else size_end)))"

definition failing_source :: "string \<Rightarrow> date \<Rightarrow> rat \<Rightarrow> rat \<Rightarrow> size_source" where
  "failing_source bad month_start size_start size_end =
     (\<lambda>code as_of.
        if code = bad then ([], Inl (RequestError ''503 Server Error''))
        else ([], Inr (if as_of = month_start then size_start else size_end)))"

definition price_table :: "string list \<Rightarrow> date \<Rightarrow> rat \<Rightarrow> date \<Rightarrow> rat \<Rightarrow> price_row list" where
  "price_table codes d1 p1 d2 p2 =
     concat (map (\<lambda>c. [\<lparr>p_date = d1, p_code = c, price_pence = p1\<rparr>,
                        \<lparr>p_date = d2, p_code = c, price_pence = p2\<rparr>]) codes)"

section \<open>Quarter start\<close>

lemma shift_month_start_day: "day (shift_month_start stamp months) = 1"
  by (simp add: shift_month_start_def Let_def)

lemma month_start_of_day: "day (month_start_of month_end) = 1"
  by (simp add: month_start_of_def minus_QuarterBegin_def quarter_begin_apply_def
      Let_def shift_month_start_day)

text \<open>
  Claim C1. The specification wants the quarter start to be the calendar month-end three
  months before the quarter end (31 December for 31 March). The program computes the
  first day of a month instead: for 31 March 2024 it computes 1 January 2024, not
  31 December 2023, and whatever the quarter end, the date it computes has day 1 and so
  is never a month-end.
\<close>

theorem quarter_start_is_first_of_month:
  "month_start_of (mk_date 2024 3 31) = mk_date 2024 1 1
   \<and> month_end_three_months_prior (mk_date 2024 3 31) = mk_date 2023 12 31
   \<and> month_start_of (mk_date 2024 3 31) \<noteq> month_end_three_months_prior (mk_date 2024 3 31)
   \<and> (\<forall>month_end. day (month_start_of month_end) = 1
        \<and> \<not> is_month_end (month_start_of month_end))"
proof -
  have a: "month_start_of (mk_date 2024 3 31) = mk_date 2024 1 1"
    by (simp add: month_start_of_def minus_QuarterBegin_def quarter_begin_apply_def
        roll_qtrday_def shift_month_start_def mk_date_def Let_def)
  have b: "month_end_three_months_prior (mk_date 2024 3 31) = mk_date 2023 12 31"
    by (simp add: month_end_three_months_prior_def mk_date_def Let_def days_in_month_def)
  have c: "\<not> is_month_end (month_start_of month_end)" for month_end
    by (simp add: is_month_end_def month_start_of_day days_in_month_def)
  from a b c show ?thesis
    by (simp add: month_start_of_day mk_date_def)
qed

section \<open>The arithmetic of the back-solver\<close>

text \<open>
  Claim C2. With a starting price of 100 and an ending price of 110 (pence), a starting
  size of 50 and an ending size of 58 (GBP millions), the units at the start are
  500,000, the size without flows is 55 and the reported flow is 3.00; with an ending
  size of 52 the reported flow is -3.00. The last two conjuncts run the whole function
  on one fund with these values. (Every intermediate value is an integer below
  \<open>2\<^sup>5\<^sup>3\<close>, so the double arithmetic is exact here.)
\<close>

theorem concrete_scenario:
  "units_start 50 100 = Finite 500000
   \<and> aum_no_flow (units_start 50 100) 110 = Finite 55
   \<and> reported_flow 50 58 100 110 = Finite 3
   \<and> reported_flow 50 52 100 110 = Finite (- 3)
   \<and> snd (backsolve_flows (sizes_source (mk_date 2024 1 1) 50 58) (mk_date 2024 3 31) [''F'']
            (price_table [''F''] (mk_date 2024 1 1) 100 (mk_date 2024 3 31) 110))
       = Inr [\<lparr>quarter_end = mk_date 2024 3 31, f_code = ''F'', flow_gbp_m = Finite 3\<rparr>]
   \<and> snd (backsolve_flows (sizes_source (mk_date 2024 1 1) 50 52) (mk_date 2024 3 31) [''F'']
            (price_table [''F''] (mk_date 2024 1 1) 100 (mk_date 2024 3 31) 110))
       = Inr [\<lparr>quarter_end = mk_date 2024 3 31, f_code = ''F'', flow_gbp_m = Finite (- 3)\<rparr>]"
  by code_simp






section \<open>The factsheet fetch and the requested date\<close>

text \<open>
  Claim C4. For a fund code and any two requested dates, the fetch returns the same
  size or raises the same exception: the address it downloads is built from the code
  alone, and the requested date only decides whether the staleness warning is printed.
\<close>

theorem fetch_independent_of_as_of:
  "snd (get_month_end_size e code as_of1) = snd (get_month_end_size e code as_of2)
   \<and> (fst (get_month_end_size e code as_of1) = []
        \<or> fst (get_month_end_size e code as_of1) = [StaleWarning code as_of1])"
  by (simp add: get_month_end_size_def Let_def split: sum.splits option.splits prod.splits)

section \<open>A fund whose size fetch fails\<close>

lemma backsolve_loop_completes:
  assumes "\<forall>c \<in> set codes. fetch_failure src ms me c = None \<longrightarrow> prices_found df ms me c"
  shows "\<exists>fl' pr'. backsolve_loop src df ms me codes flows printed = (printed @ pr', Inr (flows @ fl'))
           \<and> map f_code fl' = filter (\<lambda>c. fetch_failure src ms me c = None) codes
           \<and> (\<forall>c \<in> set codes. \<forall>e. fetch_failure src ms me c = Some e \<longrightarrow> FundFailure c (message e) \<in> set pr')"
  using assms
proof (induction codes arbitrary: flows printed)
  case Nil
  then show ?case by simp
next
  case (Cons code codes)
  then have rest: "\<forall>c \<in> set codes. fetch_failure src ms me c = None \<longrightarrow> prices_found df ms me c"
    by simp
  obtain w1 r1 where s1: "src code ms = (w1, r1)" by (cases "src code ms")
  obtain w2 r2 where s2: "src code me = (w2, r2)" by (cases "src code me")
  show ?case
  proof (cases r1)
    case (Inl e)
    from Cons.IH[OF rest, of flows "printed @ w1 @ [FundFailure code (message e)]"]
    obtain fl' pr' where h: "backsolve_loop src df ms me codes flows (printed @ w1 @ [FundFailure code (message e)])
        = ((printed @ w1 @ [FundFailure code (message e)]) @ pr', Inr (flows @ fl'))"
      "map f_code fl' = filter (\<lambda>c. fetch_failure src ms me c = None) codes"
      "\<forall>c \<in> set codes. \<forall>e. fetch_failure src ms me c = Some e \<longrightarrow> FundFailure c (message e) \<in> set pr'"
      by blast
    have ff: "fetch_failure src ms me code = Some e" using s1 Inl by (simp add: fetch_failure_def)
    show ?thesis
      apply (rule exI[of _ fl'])
      apply (rule exI[of _ "w1 @ [FundFailure code (message e)] @ pr'"])
      using h ff s1 Inl by auto
  next
    case (Inr size_start)
    note r1 = Inr
    show ?thesis
    proof (cases r2)
      case (Inl e)
      from Cons.IH[OF rest, of flows "printed @ w1 @ w2 @ [FundFailure code (message e)]"]
      obtain fl' pr' where h: "backsolve_loop src df ms me codes flows (printed @ w1 @ w2 @ [FundFailure code (message e)])
          = ((printed @ w1 @ w2 @ [FundFailure code (message e)]) @ pr', Inr (flows @ fl'))"
        "map f_code fl' = filter (\<lambda>c. fetch_failure src ms me c = None) codes"
        "\<forall>c \<in> set codes. \<forall>e. fetch_failure src ms me c = Some e \<longrightarrow> FundFailure c (message e) \<in> set pr'"
        by blast
      have ff: "fetch_failure src ms me code = Some e" using s1 s2 r1 Inl by (simp add: fetch_failure_def)
      show ?thesis
        apply (rule exI[of _ fl'])
        apply (rule exI[of _ "w1 @ w2 @ [FundFailure code (message e)] @ pr'"])
        using h ff s1 s2 r1 Inl by auto
    next
      case (Inr size_end)
      have ff: "fetch_failure src ms me code = None" using s1 s2 r1 Inr by (simp add: fetch_failure_def)
      with Cons.prems have "prices_found df ms me code" by simp
      then obtain p_start p_end where p: "lookup_price df code ms = Some p_start" "lookup_price df code me = Some p_end"
        by (auto simp: prices_found_def)
      let ?row = "\<lparr>quarter_end = me, f_code = code, flow_gbp_m = reported_flow size_start size_end p_start p_end\<rparr>"
      from Cons.IH[OF rest, of "flows @ [?row]" "printed @ w1 @ w2"]
      obtain fl' pr' where h: "backsolve_loop src df ms me codes (flows @ [?row]) (printed @ w1 @ w2)
          = ((printed @ w1 @ w2) @ pr', Inr ((flows @ [?row]) @ fl'))"
        "map f_code fl' = filter (\<lambda>c. fetch_failure src ms me c = None) codes"
        "\<forall>c \<in> set codes. \<forall>e. fetch_failure src ms me c = Some e \<longrightarrow> FundFailure c (message e) \<in> set pr'"
        by blast
      show ?thesis
        apply (rule exI[of _ "?row # fl'"])
        apply (rule exI[of _ "w1 @ w2 @ pr'"])
        using h ff s1 s2 r1 Inr p by auto
    qed
  qed
qed

lemma length_filter_neq: "length (filter (\<lambda>x. x \<noteq> c) xs) = length xs - count_list xs c"
  by (induction xs) (auto simp: Suc_diff_le count_le_length)

text \<open>
  Claim C6. In a list of fund codes where exactly one fund's size fetch raises (for the
  quarter start or for the quarter end) while every other fund's fetches and price
  lookups succeed, the function returns a table and raises nothing; the table has one
  record for each of the other funds, so one record less than there are funds; the
  failing fund has no record; and the line \<^verbatim>\<open>{code}: {e}\<close> with its code and the
  exception's message has been printed.
\<close>

theorem one_failed_fetch:
  assumes once: "count_list codes c = 1"
    and fails: "fetch_failure src (month_start_of month_end) month_end c = Some e"
    and others: "\<forall>c' \<in> set codes. c' \<noteq> c \<longrightarrow>
           fetch_failure src (month_start_of month_end) month_end c' = None
           \<and> prices_found price_df (month_start_of month_end) month_end c'"
  shows "\<exists>flows. snd (backsolve_flows src month_end codes price_df) = Inr flows
           \<and> length flows = length codes - 1
           \<and> map f_code flows = filter (\<lambda>x. x \<noteq> c) codes
           \<and> c \<notin> set (map f_code flows)
           \<and> FundFailure c (message e) \<in> set (fst (backsolve_flows src month_end codes price_df))"
proof -
  let ?ms = "month_start_of month_end"
  have cin: "c \<in> set codes"
  proof (rule ccontr)
    assume "c \<notin> set codes"
    then have "count_list codes c = 0" by simp
    with once show False by simp
  qed
  have pre: "\<forall>x \<in> set codes. fetch_failure src ?ms month_end x = None \<longrightarrow> prices_found price_df ?ms month_end x"
    using fails others by auto
  from backsolve_loop_completes[OF pre, of "[]" "[]"]
  obtain fl' pr' where h: "backsolve_loop src price_df ?ms month_end codes [] [] = (pr', Inr fl')"
    "map f_code fl' = filter (\<lambda>x. fetch_failure src ?ms month_end x = None) codes"
    "\<forall>x \<in> set codes. \<forall>e. fetch_failure src ?ms month_end x = Some e \<longrightarrow> FundFailure x (message e) \<in> set pr'"
    by auto
  have feq: "filter (\<lambda>x. fetch_failure src ?ms month_end x = None) codes = filter (\<lambda>x. x \<noteq> c) codes"
    by (rule filter_cong) (use fails others in auto)
  have len: "length fl' = length codes - 1"
  proof -
    have "length fl' = length (map f_code fl')" by simp
    also have "\<dots> = length (filter (\<lambda>x. x \<noteq> c) codes)" using h(2) feq by simp
    also have "\<dots> = length codes - 1" using once by (simp add: length_filter_neq)
    finally show ?thesis .
  qed
  have notin: "c \<notin> set (map f_code fl')" using h(2) feq by simp
  have logged: "FundFailure c (message e) \<in> set pr'" using h(3) cin fails by blast
  have m: "map f_code fl' = filter (\<lambda>x. x \<noteq> c) codes" using h(2) feq by simp
  have r: "snd (backsolve_flows src month_end codes price_df) = Inr fl'"
    by (simp add: backsolve_flows_def h(1))
  have l: "fst (backsolve_flows src month_end codes price_df) = pr'"
    by (simp add: backsolve_flows_def h(1))
  show ?thesis unfolding l using r len m notin logged by blast
qed

theorem one_failed_fetch_witness:
  "\<exists>flows. snd (backsolve_flows (failing_source ''B'' (mk_date 2024 1 1) 50 58) (mk_date 2024 3 31)
                [''A'', ''B'', ''C'']
                (price_table [''A'', ''C''] (mk_date 2024 1 1) 100 (mk_date 2024 3 31) 110)) = Inr flows
           \<and> length flows = length [''A'', ''B'', ''C''] - 1
           \<and> map f_code flows = filter (\<lambda>x. x \<noteq> ''B'') [''A'', ''B'', ''C'']
           \<and> ''B'' \<notin> set (map f_code flows)
           \<and> FundFailure ''B'' (message (RequestError ''503 Server Error''))
               \<in> set (fst (backsolve_flows (failing_source ''B'' (mk_date 2024 1 1) 50 58) (mk_date 2024 3 31)
                [''A'', ''B'', ''C'']
                (price_table [''A'', ''C''] (mk_date 2024 1 1) 100 (mk_date 2024 3 31) 110)))"
proof -
  have ms: "month_start_of (mk_date 2024 3 31) = mk_date 2024 1 1" by code_simp
  have a: "count_list [''A'', ''B'', ''C''] ''B'' = 1" by simp
  have b: "fetch_failure (failing_source ''B'' (mk_date 2024 1 1) 50 58)
             (month_start_of (mk_date 2024 3 31)) (mk_date 2024 3 31) ''B''
           = Some (RequestError ''503 Server Error'')"
    by (simp add: fetch_failure_def failing_source_def)
  have c: "\<forall>c' \<in> set [''A'', ''B'', ''C'']. c' \<noteq> ''B'' \<longrightarrow>
           fetch_failure (failing_source ''B'' (mk_date 2024 1 1) 50 58)
             (month_start_of (mk_date 2024 3 31)) (mk_date 2024 3 31) c' = None
           \<and> prices_found (price_table [''A'', ''C''] (mk_date 2024 1 1) 100 (mk_date 2024 3 31) 110)
               (month_start_of (mk_date 2024 3 31)) (mk_date 2024 3 31) c'"
    by (simp add: ms fetch_failure_def failing_source_def prices_found_def price_table_def)
  from one_failed_fetch [OF a b c] show ?thesis .
qed

section \<open>A fund whose price is missing\<close>

text \<open>
  Claim C3. The specification wants a fund without a price at the exact date to be left
  out while the other funds are still computed. In the program the price lookups are
  outside the \<^verbatim>\<open>try\<close> that guards the size fetches: with funds A and B, sizes for
  both and prices for B only, the \<^verbatim>\<open>IndexError\<close> of the lookup for A leaves
  \<^verbatim>\<open>backsolve_flows\<close>, no table is returned and nothing is printed, although B alone
  gives a record.
\<close>

theorem missing_price_aborts_batch:
  "backsolve_flows (sizes_source (mk_date 2024 1 1) 50 58) (mk_date 2024 3 31) [''A'', ''B'']
       (price_table [''B''] (mk_date 2024 1 1) 100 (mk_date 2024 3 31) 110)
     = ([], Inl index_error)
   \<and> backsolve_flows (sizes_source (mk_date 2024 1 1) 50 58) (mk_date 2024 3 31) [''B'']
       (price_table [''B''] (mk_date 2024 1 1) 100 (mk_date 2024 3 31) 110)
     = ([], Inr [\<lparr>quarter_end = mk_date 2024 3 31, f_code = ''B'', flow_gbp_m = Finite 3\<rparr>])"
  by code_simp

section \<open>Values that are zero or negative\<close>

text \<open>
  Claim C5, as stated, fails: the program never looks at the sign of a price or of a
  size. With a starting size of zero it emits the flow 58.00, and with a starting price
  of -100 pence it emits the flow 113.00.
\<close>

theorem nonpositive_values_emit_a_flow:
  "snd (backsolve_flows (sizes_source (mk_date 2024 1 1) 0 58) (mk_date 2024 3 31) [''F'']
          (price_table [''F''] (mk_date 2024 1 1) 100 (mk_date 2024 3 31) 110))
     = Inr [\<lparr>quarter_end = mk_date 2024 3 31, f_code = ''F'', flow_gbp_m = Finite 58\<rparr>]
   \<and> snd (backsolve_flows (sizes_source (mk_date 2024 1 1) 50 58) (mk_date 2024 3 31) [''F'']
          (price_table [''F''] (mk_date 2024 1 1) (- 100) (mk_date 2024 3 31) 110))
     = Inr [\<lparr>quarter_end = mk_date 2024 3 31, f_code = ''F'', flow_gbp_m = Finite 113\<rparr>]"
  by code_simp

lemma backsolve_loop_emits:
  assumes "backsolve_loop src df ms me codes flows printed = (pr, Inr out)"
  shows "set flows \<subseteq> set out
         \<and> (\<forall>code ss se ps pe. code \<in> set codes \<and> snd (src code ms) = Inr ss \<and> snd (src code me) = Inr se
               \<and> lookup_price df code ms = Some ps \<and> lookup_price df code me = Some pe
              \<longrightarrow> \<lparr>quarter_end = me, f_code = code, flow_gbp_m = reported_flow ss se ps pe\<rparr> \<in> set out)"
  using assms
proof (induction codes arbitrary: flows printed)
  case Nil
  then show ?case by simp
next
  case (Cons c codes)
  obtain w1 r1 where s1: "src c ms = (w1, r1)" by (cases "src c ms")
  obtain w2 r2 where s2: "src c me = (w2, r2)" by (cases "src c me")
  show ?case
  proof (cases r1)
    case (Inl e)
    with Cons.prems s1 have "backsolve_loop src df ms me codes flows (printed @ w1 @ [FundFailure c (message e)]) = (pr, Inr out)"
      by simp
    from Cons.IH[OF this] show ?thesis using s1 Inl by auto
  next
    case (Inr size_start)
    note r1 = Inr
    show ?thesis
    proof (cases r2)
      case (Inl e)
      with Cons.prems s1 s2 r1 have "backsolve_loop src df ms me codes flows (printed @ w1 @ w2 @ [FundFailure c (message e)]) = (pr, Inr out)"
        by simp
      from Cons.IH[OF this] show ?thesis using s2 Inl by auto
    next
      case (Inr size_end)
      from Cons.prems s1 s2 r1 Inr obtain p_start p_end where
        p: "lookup_price df c ms = Some p_start" "lookup_price df c me = Some p_end"
        by (auto split: option.splits)
      let ?row = "\<lparr>quarter_end = me, f_code = c, flow_gbp_m = reported_flow size_start size_end p_start p_end\<rparr>"
      from Cons.prems s1 s2 r1 Inr p
      have "backsolve_loop src df ms me codes (flows @ [?row]) (printed @ w1 @ w2) = (pr, Inr out)"
        by simp
      from Cons.IH[OF this] show ?thesis using s1 s2 r1 Inr p by auto
    qed
  qed
qed

text \<open>
  Claim C5, amended. Whenever both size fetches of a fund succeed and both of its exact
  date prices are found, the back-solver emits a flow record for the fund, computed from
  the fetched values whatever their sign: a zero or negative price or size is not a
  failure of the fund. This holds for the fund alone and for the fund in any list of
  funds for which the function returns a table.
\<close>

theorem no_integrity_check:
  assumes "snd (src code (month_start_of month_end)) = Inr size_start"
    and "snd (src code month_end) = Inr size_end"
    and "lookup_price price_df code (month_start_of month_end) = Some p_start"
    and "lookup_price price_df code month_end = Some p_end"
  shows "snd (backsolve_flows src month_end [code] price_df)
           = Inr [\<lparr>quarter_end = month_end, f_code = code,
                   flow_gbp_m = reported_flow size_start size_end p_start p_end\<rparr>]
         \<and> (\<forall>codes out. code \<in> set codes
                \<and> snd (backsolve_flows src month_end codes price_df) = Inr out
              \<longrightarrow> \<lparr>quarter_end = month_end, f_code = code,
                     flow_gbp_m = reported_flow size_start size_end p_start p_end\<rparr> \<in> set out)"
proof -
  obtain w1 where s1: "src code (month_start_of month_end) = (w1, Inr size_start)"
    using assms(1) by (cases "src code (month_start_of month_end)") simp
  obtain w2 where s2: "src code month_end = (w2, Inr size_end)"
    using assms(2) by (cases "src code month_end") simp
  have one: "snd (backsolve_flows src month_end [code] price_df)
           = Inr [\<lparr>quarter_end = month_end, f_code = code,
                   flow_gbp_m = reported_flow size_start size_end p_start p_end\<rparr>]"
    by (simp add: backsolve_flows_def s1 s2 assms(3) assms(4))
  have batch: "\<lparr>quarter_end = month_end, f_code = code,
                 flow_gbp_m = reported_flow size_start size_end p_start p_end\<rparr> \<in> set out"
    if "code \<in> set codes" and "snd (backsolve_flows src month_end codes price_df) = Inr out"
    for codes out
  proof -
    from that(2) obtain pr where
      "backsolve_loop src price_df (month_start_of month_end) month_end codes [] [] = (pr, Inr out)"
      by (cases "backsolve_loop src price_df (month_start_of month_end) month_end codes [] []")
         (simp add: backsolve_flows_def)
    from backsolve_loop_emits[OF this] that(1) assms show ?thesis by blast
  qed
  from one batch show ?thesis by blast
qed

theorem no_integrity_check_witness:
  "snd (backsolve_flows (sizes_source (mk_date 2024 1 1) 0 58) (mk_date 2024 3 31) [''F'']
          (price_table [''F''] (mk_date 2024 1 1) (- 100) (mk_date 2024 3 31) 0))
     = Inr [\<lparr>quarter_end = mk_date 2024 3 31, f_code = ''F'',
             flow_gbp_m = reported_flow 0 58 (- 100) 0\<rparr>]"
proof -
  have ms: "month_start_of (mk_date 2024 3 31) = mk_date 2024 1 1" by code_simp
  have ne: "mk_date 2024 3 31 \<noteq> mk_date 2024 1 1" by (simp add: mk_date_def)
  have h: "snd (sizes_source (mk_date 2024 1 1) 0 58 ''F'' (month_start_of (mk_date 2024 3 31))) = Inr 0"
    "snd (sizes_source (mk_date 2024 1 1) 0 58 ''F'' (mk_date 2024 3 31)) = Inr 58"
    "lookup_price (price_table [''F''] (mk_date 2024 1 1) (- 100) (mk_date 2024 3 31) 0) ''F''
           (month_start_of (mk_date 2024 3 31)) = Some (- 100)"
    "lookup_price (price_table [''F''] (mk_date 2024 1 1) (- 100) (mk_date 2024 3 31) 0) ''F''
           (mk_date 2024 3 31) = Some 0"
    by (simp_all add: ms ne ne[symmetric] sizes_source_def price_table_def)
  from no_integrity_check
    [of "sizes_source (mk_date 2024 1 1) 0 58" "''F''" "mk_date 2024 3 31" 0 58
        "price_table [''F''] (mk_date 2024 1 1) (- 100) (mk_date 2024 3 31) 0" "- 100" 0,
     OF h]
  show ?thesis by blast
qed

section \<open>Merging into the stored tables\<close>

text \<open>
  Where the file exists, the merge keeps one row per key, keeps the rows of the file
  in front of the new ones, and merging the same batch again changes nothing.
\<close>

lemma drop_duplicates_from_keys:
  "key ` set (drop_duplicates_from key seen rs) = key ` set rs - seen"
  by (induction rs arbitrary: seen) auto

lemma drop_duplicates_from_distinct:
  "distinct (map key (drop_duplicates_from key seen rs))"
proof (induction rs arbitrary: seen)
  case Nil
  then show ?case by simp
next
  case (Cons r rs)
  have "key r \<notin> key ` set (drop_duplicates_from key (insert (key r) seen) rs)"
    by (simp add: drop_duplicates_from_keys)
  with Cons show ?case by simp
qed

lemma drop_duplicates_from_append:
  "drop_duplicates_from key seen (xs @ ys)
     = drop_duplicates_from key seen xs @ drop_duplicates_from key (seen \<union> key ` set xs) ys"
proof (induction xs arbitrary: seen)
  case Nil
  then show ?case by simp
next
  case (Cons x xs)
  show ?case
  proof (cases "key x \<in> seen")
    case True
    then have "seen \<union> key ` set (x # xs) = seen \<union> key ` set xs" by auto
    with True Cons show ?thesis by simp
  next
    case False
    have "insert (key x) seen \<union> key ` set xs = seen \<union> key ` set (x # xs)" by auto
    with False Cons[of "insert (key x) seen"] show ?thesis by simp
  qed
qed

lemma drop_duplicates_from_seen:
  "key ` set rs \<subseteq> seen \<Longrightarrow> drop_duplicates_from key seen rs = []"
  by (induction rs arbitrary: seen) auto

lemma drop_duplicates_from_id:
  "distinct (map key rs) \<Longrightarrow> key ` set rs \<inter> seen = {} \<Longrightarrow> drop_duplicates_from key seen rs = rs"
  by (induction rs arbitrary: seen) auto

lemma drop_duplicates_distinct: "distinct (map key (drop_duplicates key rs))"
  by (simp add: drop_duplicates_def drop_duplicates_from_distinct)

lemma drop_duplicates_again:
  "drop_duplicates key (drop_duplicates key (xs @ ys) @ ys) = drop_duplicates key (xs @ ys)"
proof -
  let ?m = "drop_duplicates_from key {} (xs @ ys)"
  have k: "key ` set ys \<subseteq> {} \<union> key ` set ?m"
    by (auto simp: drop_duplicates_from_keys)
  have "drop_duplicates_from key {} (?m @ ys)
          = drop_duplicates_from key {} ?m @ drop_duplicates_from key ({} \<union> key ` set ?m) ys"
    by (rule drop_duplicates_from_append)
  also have "drop_duplicates_from key ({} \<union> key ` set ?m) ys = []"
    using k by (rule drop_duplicates_from_seen)
  also have "drop_duplicates_from key {} ?m = ?m"
    by (rule drop_duplicates_from_id) (simp_all add: drop_duplicates_from_distinct)
  finally show ?thesis by (simp add: drop_duplicates_def)
qed

lemma drop_duplicates_keeps_existing:
  "distinct (map key xs) \<Longrightarrow>
   drop_duplicates key (xs @ ys) = xs @ drop_duplicates_from key (key ` set xs) ys"
  by (simp add: drop_duplicates_def drop_duplicates_from_append drop_duplicates_from_id)

lemma merge_prices_existing_distinct:
  "distinct (map price_key (merge_prices (Some existing) prices_df))"
  by (simp add: merge_prices_def drop_duplicates_distinct)

lemma merge_prices_existing_again:
  "merge_prices (Some (merge_prices (Some existing) prices_df)) prices_df
     = merge_prices (Some existing) prices_df"
  by (simp add: merge_prices_def drop_duplicates_again)

lemma merge_prices_existing_kept:
  "distinct (map price_key existing) \<Longrightarrow>
   merge_prices (Some existing) prices_df
     = existing @ drop_duplicates_from price_key (price_key ` set existing) prices_df"
  by (simp add: merge_prices_def drop_duplicates_keeps_existing)

lemma merge_flows_existing_distinct:
  "distinct (map flow_key (merge_flows (Some existing) q_flows))"
  by (simp add: merge_flows_def drop_duplicates_distinct)

lemma merge_flows_existing_again:
  "merge_flows (Some (merge_flows (Some existing) q_flows)) q_flows
     = merge_flows (Some existing) q_flows"
  by (simp add: merge_flows_def drop_duplicates_again)

lemma merge_flows_existing_kept:
  "distinct (map flow_key existing) \<Longrightarrow>
   merge_flows (Some existing) q_flows
     = existing @ drop_duplicates_from flow_key (flow_key ` set existing) q_flows"
  by (simp add: merge_flows_def drop_duplicates_keeps_existing)


text \<open>
  Claim C8. The specification wants no two stored records with the same key after any
  merge. On a first run, with no file, the program writes the batch as it is: two price
  rows with the same date and code are both stored, and a fund code listed in both
  groups gives two flow records with the same quarter end and code.
\<close>

theorem first_merge_keeps_duplicate_keys:
  "merge_prices None
       [\<lparr>p_date = mk_date 2024 5 14, p_code = ''F'', price_pence = 100\<rparr>,
        \<lparr>p_date = mk_date 2024 5 14, p_code = ''F'', price_pence = 200\<rparr>]
     = [\<lparr>p_date = mk_date 2024 5 14, p_code = ''F'', price_pence = 100\<rparr>,
        \<lparr>p_date = mk_date 2024 5 14, p_code = ''F'', price_pence = 200\<rparr>]
   \<and> \<not> distinct (map price_key (merge_prices None
       [\<lparr>p_date = mk_date 2024 5 14, p_code = ''F'', price_pence = 100\<rparr>,
        \<lparr>p_date = mk_date 2024 5 14, p_code = ''F'', price_pence = 200\<rparr>]))
   \<and> flow_file (fst (main (sizes_source (mk_date 2024 1 1) 50 58)
       (Inr (price_table [''F''] (mk_date 2024 1 1) 100 (mk_date 2024 4 1) 110)) (Inr [])
       [''F''] [''F''] (mk_date 2024 4 5) no_files))
     = Some [\<lparr>quarter_end = mk_date 2024 4 1, f_code = ''F'', flow_gbp_m = Finite 3\<rparr>,
             \<lparr>quarter_end = mk_date 2024 4 1, f_code = ''F'', flow_gbp_m = Finite 3\<rparr>]"
  by code_simp

section \<open>The quarter end the driver passes\<close>

lemma q_end_of_day: "day (q_end_of today) = 1"
  by (simp add: q_end_of_def minus_MonthBegin_def month_begin_apply_def shift_month_start_day)

text \<open>
  Claim C10. The specification, and the comment of line 151, want the quarter end to be
  the last day of the month before today. On 5 April 2024, one of the first ten business
  days of April, the program computes 1 April 2024, not 31 March 2024, and the record it
  stores carries that date; whatever the day, the date it computes has day 1 and so is
  never a month-end.
\<close>

theorem q_end_is_first_of_month:
  "is_flow_day (mk_date 2024 4 5)
   \<and> q_end_of (mk_date 2024 4 5) = mk_date 2024 4 1
   \<and> last_day_of_prior_month (mk_date 2024 4 5) = mk_date 2024 3 31
   \<and> q_end_of (mk_date 2024 4 5) \<noteq> last_day_of_prior_month (mk_date 2024 4 5)
   \<and> flow_file (fst (main (sizes_source (mk_date 2024 1 1) 50 58)
       (Inr (price_table [''F''] (mk_date 2024 1 1) 100 (mk_date 2024 4 1) 110)) (Inr [])
       [''F''] [] (mk_date 2024 4 5) no_files))
     = Some [\<lparr>quarter_end = mk_date 2024 4 1, f_code = ''F'', flow_gbp_m = Finite 3\<rparr>]
   \<and> (\<forall>today. day (q_end_of today) = 1 \<and> \<not> is_month_end (q_end_of today))"
proof -
  have a: "is_flow_day (mk_date 2024 4 5)
   \<and> q_end_of (mk_date 2024 4 5) = mk_date 2024 4 1
   \<and> last_day_of_prior_month (mk_date 2024 4 5) = mk_date 2024 3 31
   \<and> q_end_of (mk_date 2024 4 5) \<noteq> last_day_of_prior_month (mk_date 2024 4 5)
   \<and> flow_file (fst (main (sizes_source (mk_date 2024 1 1) 50 58)
       (Inr (price_table [''F''] (mk_date 2024 1 1) 100 (mk_date 2024 4 1) 110)) (Inr [])
       [''F''] [] (mk_date 2024 4 5) no_files))
     = Some [\<lparr>quarter_end = mk_date 2024 4 1, f_code = ''F'', flow_gbp_m = Finite 3\<rparr>]"
    by code_simp
  have b: "\<not> is_month_end (q_end_of today)" for today
    by (simp add: is_month_end_def q_end_of_day days_in_month_def)
  from a b q_end_of_day show ?thesis by blast
qed

end
